theory Spec2Isabelle
  imports Main "HOL-Library.AList"
begin

section \<open>AST elements and diagnostics\<close>

text \<open>
  AST elements are objects compared by identity. An element is referred to by its index
  in the arena of parsed elements; every modelled AST object carries its own index.
\<close>

type_synonym ASTBase = nat

text \<open>
  The exceptions a call can end with: a TypeError, the SyntaxError of a regular
  expression that does not compile, and the RangeError of a call stack that is full.
\<close>

datatype js_error = TypeError | SyntaxError | RangeError

datatype DiagnosticSeverity = Error | Warning | Information | Hint

datatype DiagnosticTag = Unnecessary | Deprecated

datatype StandardTypeIssue =
    REQUIRED
  | EXPECTED_EMPTY
  | EXPECTED_STRING
  | EXPECTED_STRINGLIST
  | EXPECTED_COMPOSITE_LENGTH
  | EXPECTED_U32
  | EXPECTED_U64
  | EXPECTED_PROP_ENCODED_ARRAY
  | EXPECTED_ONE
  | EXPECTED_ENUM
  | OMITTED
  | PROPERTY_REQUIRES_OTHER_PROPERTY_IN_NODE
  | INTERRUPTS_PARENT_NODE_NOT_FOUND
  | INTERRUPTS_VALUE_CELL_MISS_MATCH
  | IGNORED

datatype ContextIssues =
    DUPLICATE_PROPERTY_NAME
  | PROPERTY_DOES_NOT_EXIST
  | DUPLICATE_NODE_NAME
  | UNABLE_TO_RESOLVE_CHILD_NODE
  | LABEL_ALREADY_IN_USE
  | NODE_DOES_NOT_EXIST

text \<open>
  \<^verbatim>\<open>Issue<T>\<close>: \<open>astElement\<close> is optional because callers pass elements read from
  arrays that may be empty; \<open>tags\<close> is \<^verbatim>\<open>DiagnosticTag[] | undefined\<close>.
\<close>

record 'k Issue =
  issues :: "'k list"
  astElement :: "ASTBase option"
  severity :: DiagnosticSeverity
  linkedTo :: "ASTBase list"
  tags :: "DiagnosticTag list option"
  templateStrings :: "string list"

text \<open>
  \<^verbatim>\<open>genIssue\<close> as \<^verbatim>\<open>ContextAware.genIssue\<close> writes it; the validator imports a function of
  the same name and argument order from the helpers module. The defaults of the optional
  arguments (severity \<open>Error\<close>, no links, undefined tags, no template strings) are
  written out at each call.
\<close>

definition genIssue ::
  "'k list \<Rightarrow> ASTBase option \<Rightarrow> DiagnosticSeverity \<Rightarrow> ASTBase list \<Rightarrow>
   DiagnosticTag list option \<Rightarrow> string list \<Rightarrow> 'k Issue" where
  "genIssue issue slxBase sev linked tgs templ =
     \<lparr>issues = issue, astElement = slxBase, severity = sev, linkedTo = linked,
      tags = tgs, templateStrings = templ\<rparr>"

section \<open>Property values\<close>

datatype PropetyType =
    EMPTY
  | U32
  | U64
  | STRING
  | PROP_ENCODED_ARRAY
  | STRINGLIST
  | BYTESTRING
  | UNKNOWN

text \<open>
  The object held in \<^verbatim>\<open>PropertyValue.value\<close>. A string value keeps its text (quotes
  included), a cell array keeps its cells.
\<close>

datatype AllValueType =
    StringValue ASTBase string
  | ArrayValues ASTBase "ASTBase list"
  | LabelRef ASTBase
  | NodePathRef ASTBase
  | ByteString ASTBase

fun value_ast :: "AllValueType \<Rightarrow> ASTBase" where
  "value_ast (StringValue a s) = a"
| "value_ast (ArrayValues a cs) = a"
| "value_ast (LabelRef a) = a"
| "value_ast (NodePathRef a) = a"
| "value_ast (ByteString a) = a"

datatype PropertyValue = PropertyValue (pv_ast: ASTBase) (pv_value: AllValueType)

text \<open>\<^verbatim>\<open>PropertyValues.values\<close> is an array of \<^verbatim>\<open>PropertyValue | null\<close>.\<close>

datatype PropertyValues =
  PropertyValues (pvs_ast: ASTBase) (pvs_values: "PropertyValue option list")

datatype DtcProperty =
  DtcProperty (dp_ast: ASTBase) (propertyName: "string option")
    (dp_values: "PropertyValues option")

text \<open>The runtime \<^verbatim>\<open>Property\<close>: its defining AST and the definition it replaces.\<close>

datatype Property = Property (ast: DtcProperty) (replaces: "Property option")

definition name :: "Property \<Rightarrow> string" where
  "name p = (case propertyName (ast p) of Some n \<Rightarrow> n | None \<Rightarrow> ''[UNSET]'')"

fun propertyValueToPropetyType :: "PropertyValue option \<Rightarrow> PropetyType" where
  "propertyValueToPropetyType None = UNKNOWN"
| "propertyValueToPropetyType (Some (PropertyValue a (StringValue b s))) = STRING"
| "propertyValueToPropetyType (Some (PropertyValue a (ArrayValues b cs))) =
     (if length cs = 1 then U32 else if length cs = 2 then U64 else PROP_ENCODED_ARRAY)"
| "propertyValueToPropetyType (Some (PropertyValue a (LabelRef b))) = U32"
| "propertyValueToPropetyType (Some (PropertyValue a (NodePathRef b))) = U32"
| "propertyValueToPropetyType (Some (PropertyValue a (ByteString b))) = BYTESTRING"

definition propertyValuesToPropetyType :: "Property \<Rightarrow> PropetyType list" where
  "propertyValuesToPropetyType property =
     (case dp_values (ast property) of
        Some vs \<Rightarrow> map propertyValueToPropetyType (pvs_values vs)
      | None \<Rightarrow> [EMPTY])"

section \<open>The runtime node\<close>

text \<open>
  Modelled from the spec: the runtime \<^verbatim>\<open>Node\<close> class (context/node) is used by the
  resolver and the validator and is defined outside the sources verified here. Following section 3.4
  of the specification a node holds its name, the AST definitions that contributed to
  it, its properties and its children, the last two in insertion order; a node created
  with \<^verbatim>\<open>new Node(name)\<close> holds nothing yet. \<^verbatim>\<open>getProperty\<close> looks a property up by name.
\<close>

datatype Node =
  Node (node_name: string) (definitons: "ASTBase list") (properties: "Property list")
    (nodes: "Node list")

definition new_Node :: "string \<Rightarrow> Node" where
  "new_Node n = Node n [] [] []"

definition getProperty :: "Node \<Rightarrow> string \<Rightarrow> Property option" where
  "getProperty node n = find (\<lambda>p. name p = n) (properties node)"

section \<open>Property bindings and their validation\<close>

datatype RequirementStatus = Required | Ommited | Optional

type_synonym TypeConfig = "PropetyType list"

text \<open>
  The name of a binding is a string or a regular expression; the latter is kept as the
  predicate \<^verbatim>\<open>!!name.match(this.name)\<close>.
\<close>

datatype NameSpec = NameString string | NameRegExp "string \<Rightarrow> bool"

text \<open>
  \<^verbatim>\<open>PropertyNodeType\<close> after its constructor has run: \<open>pnt_required\<close> and \<open>pnt_values\<close>
  are the functions the constructor stores (a constant is stored as the constant
  function), \<open>pnt_values\<close> yields the enumerated entries as they are spliced into the
  pattern of the enumeration test, \<open>pnt_list\<close> is the \<^verbatim>\<open>list\<close> flag.
\<close>

datatype PropertyNodeType =
  PropertyNodeType
    (pnt_name: NameSpec)
    (pnt_type: "TypeConfig list")
    (pnt_required: "Node \<Rightarrow> RequirementStatus")
    (pnt_values: "Property \<Rightarrow> string list")
    (pnt_additionalTypeCheck: "(Property \<Rightarrow> StandardTypeIssue Issue list) option")
    (pnt_list: bool)

definition getNameMatch :: "PropertyNodeType \<Rightarrow> string \<Rightarrow> bool" where
  "getNameMatch this n = (case pnt_name this of NameString s \<Rightarrow> s = n | NameRegExp m \<Rightarrow> m n)"

text \<open>The decimal text of \<^verbatim>\<open>n.toString()\<close> for a natural number.\<close>

fun toString :: "nat \<Rightarrow> string" where
  "toString n =
     (if n < 10 then [char_of (48 + n)]
      else toString (n div 10) @ [char_of (48 + n mod 10)])"

declare toString.simps [simp del]

text \<open>\<^verbatim>\<open>xs.join(sep)\<close> on an array of strings.\<close>

fun join :: "string \<Rightarrow> string list \<Rightarrow> string" where
  "join sep [] = []"
| "join sep [x] = x"
| "join sep (x # y # ys) = x @ sep @ join sep (y # ys)"

text \<open>
  \<^verbatim>\<open>property.ast.values?.values[0]?.value\<close>: the first value object, undefined when the
  property has no values, when the array is empty or when its first entry is null.
\<close>

definition firstValue :: "Property \<Rightarrow> AllValueType option" where
  "firstValue property =
     (case dp_values (ast property) of
        None \<Rightarrow> None
      | Some vs \<Rightarrow>
          (case pvs_values vs of
             [] \<Rightarrow> None
           | None # _ \<Rightarrow> None
           | Some pv # _ \<Rightarrow> Some (pv_value pv)))"

text \<open>\<^verbatim>\<open>property.ast.values?.values[i] ?? property.ast\<close>\<close>

definition valueAstAt :: "Property \<Rightarrow> nat \<Rightarrow> ASTBase" where
  "valueAstAt property i =
     (case dp_values (ast property) of
        None \<Rightarrow> dp_ast (ast property)
      | Some vs \<Rightarrow>
          (if i < length (pvs_values vs)
           then (case pvs_values vs ! i of
                   Some pv \<Rightarrow> pv_ast pv
                 | None \<Rightarrow> dp_ast (ast property))
           else dp_ast (ast property)))"

text \<open>\<^verbatim>\<open>property.ast.values ?? property.ast\<close>\<close>

definition valuesAst :: "Property \<Rightarrow> ASTBase" where
  "valuesAst property =
     (case dp_values (ast property) of
        Some vs \<Rightarrow> pvs_ast vs
      | None \<Rightarrow> dp_ast (ast property))"

text \<open>The \<^verbatim>\<open>switch\<close> of \<^verbatim>\<open>checkType\<close>: what one expected type pushes.\<close>

fun expectedIssue :: "PropetyType \<Rightarrow> StandardTypeIssue list" where
  "expectedIssue EMPTY = [EXPECTED_EMPTY]"
| "expectedIssue STRING = [EXPECTED_STRING]"
| "expectedIssue STRINGLIST = [EXPECTED_STRINGLIST]"
| "expectedIssue U32 = [EXPECTED_U32]"
| "expectedIssue U64 = [EXPECTED_U64]"
| "expectedIssue PROP_ENCODED_ARRAY = [EXPECTED_PROP_ENCODED_ARRAY]"
| "expectedIssue BYTESTRING = []"
| "expectedIssue UNKNOWN = []"

definition typeIsValid :: "PropetyType list \<Rightarrow> PropetyType \<Rightarrow> bool" where
  "typeIsValid expected t =
     (list_ex (\<lambda>tt. tt = t) expected
      \<or> (list_ex (\<lambda>tt. tt = STRINGLIST) expected \<and> (t = STRING \<or> t = STRINGLIST))
      \<or> (list_ex (\<lambda>tt. tt = PROP_ENCODED_ARRAY) expected \<and> (t = U32 \<or> t = U64)))"

text \<open>
  \<^verbatim>\<open>checkType\<close> pushes onto the \<^verbatim>\<open>issues\<close> of the enclosing call; the model returns
  what one call pushes.
\<close>

definition checkType ::
  "Property \<Rightarrow> PropetyType list \<Rightarrow> PropetyType \<Rightarrow> ASTBase option \<Rightarrow>
   StandardTypeIssue Issue list" where
  "checkType property expected t ast0 =
     (let ast1 = (case ast0 of Some a \<Rightarrow> a | None \<Rightarrow> dp_ast (ast property)) in
      if \<not> typeIsValid expected t
      then (let issue = concat (map expectedIssue expected) in
            if issue \<noteq> [] then [genIssue issue (Some ast1) Error [] (Some []) [name property]]
            else [])
      else [])"

text \<open>
  The branch for a type list of more than one slot. The callback of \<^verbatim>\<open>forEach\<close>
  receives the type and its index.
\<close>

definition compositeIssues ::
  "PropertyNodeType \<Rightarrow> TypeConfig \<Rightarrow> string \<Rightarrow> Property \<Rightarrow> PropetyType list \<Rightarrow>
   StandardTypeIssue Issue list" where
  "compositeIssues this type0 propName property propTypes =
     (if \<not> pnt_list this \<and> length (pnt_type this) \<noteq> length propTypes
      then [genIssue [EXPECTED_COMPOSITE_LENGTH] (Some (valuesAst property)) Error []
              (Some []) [propName, toString (length (pnt_type this))]]
      else concat (map (\<lambda>(t, i).
              if list_all (\<lambda>tt. tt \<noteq> t) type0
              then [genIssue [EXPECTED_STRINGLIST] (Some (valueAstAt property i)) Error []
                      None []]
              else [])
             (zip propTypes [0 ..< length propTypes])))"

text \<open>
  The branch for a single slot, up to the comment \<^verbatim>\<open>we have the right type\<close>.
  \<^verbatim>\<open>checkType\<close> returns nothing, so \<^verbatim>\<open>propTypes.some\<close> visits every element.
\<close>

definition slotIssues ::
  "PropertyNodeType \<Rightarrow> TypeConfig \<Rightarrow> Property \<Rightarrow> PropetyType list \<Rightarrow>
   StandardTypeIssue Issue list" where
  "slotIssues this type0 property propTypes =
     (let firstAst = map_option value_ast (firstValue property) in
      if list_ex (\<lambda>tt. tt = STRINGLIST) type0
      then concat (map (\<lambda>t. checkType property [STRINGLIST] t firstAst) propTypes)
      else if pnt_list this
      then concat (map (\<lambda>t. checkType property type0 t firstAst) propTypes)
      else if length propTypes > 1 \<and> list_ex (\<lambda>tt. tt \<noteq> EMPTY) type0
      then [genIssue [EXPECTED_ONE] (Some (valuesAst property)) Error [] (Some [])
              [name property]]
      else if length propTypes = 1
      then checkType property type0 (propTypes ! 0) firstAst
      else [])"

text \<open>
  What the enumeration test needs of the language and of the AST classes that are
  declared outside the sources verified here. \<open>valueMember\<close> is the \<^verbatim>\<open>value\<close> member of
  a value object that is not a string value: undefined, a string, or something else
  (which has no \<^verbatim>\<open>match\<close> method). \<open>newRegExp\<close> is \<^verbatim>\<open>new RegExp(pattern)\<close>: nothing
  for a pattern that does not compile, otherwise the test whether a text has a match.
\<close>

datatype Member = NoMember | StringMember string | OtherMember

record Engine =
  valueMember :: "AllValueType \<Rightarrow> Member"
  newRegExp :: "string \<Rightarrow> (string \<Rightarrow> bool) option"

text \<open>
  \<^verbatim>\<open>currentValue.value\<close> where \<^verbatim>\<open>currentValue\<close> is the first value object cast to
  \<^verbatim>\<open>StringValue\<close>. Without a first value the read itself throws; a string value yields
  its text.
\<close>

definition currentValueMember :: "Engine \<Rightarrow> Property \<Rightarrow> Member option" where
  "currentValueMember js property =
     (case firstValue property of
        None \<Rightarrow> None
      | Some (StringValue a s) \<Rightarrow> Some (StringMember s)
      | Some cv \<Rightarrow> Some (valueMember js cv))"

text \<open>The pattern \<^verbatim>\<open>^["']v["']$\<close> for an enumerated entry \<open>v\<close>.\<close>

definition enumPattern :: "string \<Rightarrow> string" where
  "enumPattern v =
     ''^['' @ [CHR 0x22, CHR 0x27] @ '']'' @ v @ ''['' @ [CHR 0x22, CHR 0x27] @ '']$''"

text \<open>
  \<^verbatim>\<open>this.values(property).some(v => !!text.match(new RegExp(...)))\<close> for a string
  \<open>text\<close>: the entries are tried in order up to the first match, and a pattern that
  does not compile throws.
\<close>

fun enumSome :: "Engine \<Rightarrow> string \<Rightarrow> string list \<Rightarrow> js_error + bool" where
  "enumSome js text [] = Inr False"
| "enumSome js text (v # vs) =
     (case newRegExp js (enumPattern v) of
        None \<Rightarrow> Inl SyntaxError
      | Some matches \<Rightarrow> if matches text then Inr True else enumSome js text vs)"

text \<open>
  The enumeration test. The callee \<^verbatim>\<open>currentValue.value.match\<close> is read before the
  argument is built: an undefined first value or an undefined member throws a TypeError
  at once; a member that is no string has no \<^verbatim>\<open>match\<close>, so the first pattern is
  compiled and then the call throws.
\<close>

definition enumIssues ::
  "Engine \<Rightarrow> PropertyNodeType \<Rightarrow> TypeConfig \<Rightarrow> Property \<Rightarrow>
   js_error + StandardTypeIssue Issue list" where
  "enumIssues js this type0 property =
     (let vals = pnt_values this property in
      if vals \<noteq> [] \<and> list_ex (\<lambda>tt. tt = STRING) type0
      then (case currentValueMember js property of
              None \<Rightarrow> Inl TypeError
            | Some NoMember \<Rightarrow> Inl TypeError
            | Some OtherMember \<Rightarrow>
                (case newRegExp js (enumPattern (hd vals)) of
                   None \<Rightarrow> Inl SyntaxError
                 | Some matches \<Rightarrow> Inl TypeError)
            | Some (StringMember s) \<Rightarrow>
                (case enumSome js s vals of
                   Inl e \<Rightarrow> Inl e
                 | Inr found \<Rightarrow>
                     if \<not> found
                     then Inr [genIssue [EXPECTED_ENUM]
                                 (Some (case firstValue property of
                                          Some cv \<Rightarrow> value_ast cv
                                        | None \<Rightarrow> dp_ast (ast property)))
                                 Error [] (Some [])
                                 [join '' or ''
                                    (map (\<lambda>v. [CHR 0x27] @ v @ [CHR 0x27]) vals)]]
                     else Inr []))
      else Inr [])"

text \<open>
  \<^verbatim>\<open>validateProperty\<close>. \<open>runtime\<close> stands for \<^verbatim>\<open>runtime.getOrderedNodeAst\<close>, whose
  class is defined outside the sources verified here. A binding with an empty type list makes
  \<^verbatim>\<open>this.type[0].types\<close> throw.
\<close>

definition validateProperty ::
  "Engine \<Rightarrow> (Node \<Rightarrow> ASTBase list) \<Rightarrow> PropertyNodeType \<Rightarrow>
   Node \<Rightarrow> string \<Rightarrow> Property option \<Rightarrow> js_error + StandardTypeIssue Issue list" where
  "validateProperty js runtime this node propName property =
     (let required = pnt_required this node in
      case property of
        None \<Rightarrow>
          if required = Required
          then (let orderdTree = runtime node in
                Inr [genIssue [REQUIRED]
                       (case orderdTree of [] \<Rightarrow> None | a # _ \<Rightarrow> Some a)
                       Error (drop 1 orderdTree) (Some []) [propName]])
          else Inr []
      | Some p \<Rightarrow>
          if required = Ommited
          then Inr [genIssue [OMITTED] (Some (dp_ast (ast p))) Error [] (Some []) [propName]]
          else
            (let propTypes = propertyValuesToPropetyType p in
             case pnt_type this of
               [] \<Rightarrow> Inl TypeError
             | type0 # _ \<Rightarrow>
                 if length (pnt_type this) > 1
                 then Inr (compositeIssues this type0 propName p propTypes)
                 else
                   (let issues0 = slotIssues this type0 p propTypes in
                    if issues0 = []
                    then (let issues1 =
                                (case pnt_additionalTypeCheck this of
                                   Some f \<Rightarrow> f p
                                 | None \<Rightarrow> [])
                          in case enumIssues js this type0 p of
                               Inl e \<Rightarrow> Inl e
                             | Inr issues2 \<Rightarrow> Inr (issues1 @ issues2))
                    else Inr issues0)))"

text \<open>\<^verbatim>\<open>flatMap\<close> over calls that may throw: the first exception ends the walk.\<close>

fun flatMapE :: "('a \<Rightarrow> js_error + 'b list) \<Rightarrow> 'a list \<Rightarrow> js_error + 'b list" where
  "flatMapE f [] = Inr []"
| "flatMapE f (x # xs) =
     (case f x of
        Inl e \<Rightarrow> Inl e
      | Inr ys \<Rightarrow> (case flatMapE f xs of Inl e \<Rightarrow> Inl e | Inr zs \<Rightarrow> Inr (ys @ zs)))"

definition validate ::
  "Engine \<Rightarrow> (Node \<Rightarrow> ASTBase list) \<Rightarrow> PropertyNodeType \<Rightarrow>
   Node \<Rightarrow> js_error + StandardTypeIssue Issue list" where
  "validate js runtime this node =
     (case pnt_name this of
        NameString n \<Rightarrow> validateProperty js runtime this node n (getProperty node n)
      | NameRegExp m \<Rightarrow>
          flatMapE (\<lambda>p. validateProperty js runtime this node (name p) (Some p))
            (filter (\<lambda>p. getNameMatch this (name p)) (properties node)))"

section \<open>Replaced properties\<close>

fun allReplaced :: "Property \<Rightarrow> Property list" where
  "allReplaced (Property a None) = []"
| "allReplaced (Property a (Some q)) = q # allReplaced q"

text \<open>
  \<^verbatim>\<open>Property.replacedIssues\<close>: the issues of the replaced definition, followed by one
  issue for the definition this one replaces.
\<close>

fun replacedIssues :: "Property \<Rightarrow> ContextIssues Issue list" where
  "replacedIssues (Property a None) = []"
| "replacedIssues (Property a (Some q)) =
     replacedIssues q @
     [\<lparr>issues = [DUPLICATE_PROPERTY_NAME], astElement = Some (dp_ast (ast q)),
       severity = Hint, linkedTo = [dp_ast a], tags = Some [Unnecessary],
       templateStrings = [name (Property a (Some q))]\<rparr>]"

text \<open>
  Modelled from the spec: \<^verbatim>\<open>Node.addProperty\<close> is defined outside the sources verified here. The
  specification has the merge append the property to the node and, when a property of
  that name exists, link the new one's \<open>replaces\<close> to the previous one, which is kept
  only through that link.
\<close>

definition addProperty :: "Node \<Rightarrow> Property \<Rightarrow> Node" where
  "addProperty node property =
     (let ps = properties node;
          before = takeWhile (\<lambda>p. name p \<noteq> name property) ps
      in case dropWhile (\<lambda>p. name p \<noteq> name property) ps of
           [] \<Rightarrow> Node (node_name node) (definitons node) (ps @ [property]) (nodes node)
         | prev # after \<Rightarrow>
             Node (node_name node) (definitons node)
               (before @ after @ [Property (ast property) (Some prev)]) (nodes node))"

text \<open>
  \<^verbatim>\<open>ContextAware.processDtcProperty\<close>. The children of a property element are its
  name, its values and its labels; \<^verbatim>\<open>processChild\<close> has no branch for them, so the walk
  over the children changes nothing.
\<close>

definition processDtcProperty :: "DtcProperty \<Rightarrow> Node \<Rightarrow> Node" where
  "processDtcProperty element runtimeNodeParent =
     (case propertyName element of
        Some n \<Rightarrow>
          if n \<noteq> [] then addProperty runtimeNodeParent (Property element None)
          else runtimeNodeParent
      | None \<Rightarrow> runtimeNodeParent)"

text \<open>
  Modelled from the spec: \<^verbatim>\<open>Node.issues\<close> is defined outside the sources verified here; the issues
  of a node are those of its properties and of its children.
\<close>

fun Node_issues :: "Node \<Rightarrow> ContextIssues Issue list" where
  "Node_issues (Node n ds ps cs) =
     concat (map replacedIssues ps) @ concat (map Node_issues cs)"

section \<open>Labels\<close>

text \<open>
  The parent of a label assignment, as far as the resolver reads it: a child node
  element with its \<^verbatim>\<open>path\<close> (undefined when unknown), a reference node element with
  \<^verbatim>\<open>labelReferance?.label?.value\<close> and \<^verbatim>\<open>pathName\<close>, or another element.
\<close>

datatype AstParent =
    DtcChildNode "string list option"
  | DtcRefNode "string option" "string option"
  | OtherElement

datatype LabelAssign =
  LabelAssign (la_ast: ASTBase) (label: string) (parentNode: AstParent)

text \<open>
  The owner of a label is a runtime property, a runtime node or null. Owners are
  compared by identity, so a runtime object is named by a number of its own.
\<close>

datatype Owner = NodeOwner nat | PropertyOwner nat

datatype LabelMapped = LabelMapped (item_label: LabelAssign) (owner: "Owner option")

fun isNode :: "Owner option \<Rightarrow> bool" where
  "isNode (Some (NodeOwner i)) = True"
| "isNode (Some (PropertyOwner i)) = False"
| "isNode None = False"

text \<open>
  The \<^verbatim>\<open>Map\<close> from label text to the items of that text, in insertion order: a new key
  goes to the end, an item of a known key is pushed onto the array of that key.
\<close>

definition lablesUsed_add ::
  "LabelMapped \<Rightarrow> (string \<times> LabelMapped list) list \<Rightarrow> (string \<times> LabelMapped list) list" where
  "lablesUsed_add item m =
     (case map_of m (label (item_label item)) of
        None \<Rightarrow> AList.update (label (item_label item)) [item] m
      | Some g \<Rightarrow> AList.update (label (item_label item)) (g @ [item]) m)"

definition lablesUsed :: "LabelMapped list \<Rightarrow> (string \<times> LabelMapped list) list" where
  "lablesUsed items = fold lablesUsed_add items []"

text \<open>
  What one entry of the map pushes onto \<^verbatim>\<open>_issues\<close>. Without a first labelled node
  the comparison \<^verbatim>\<open>owner.owner === firstLabeledNode?.owner\<close> compares with undefined
  and is false.
\<close>

definition labelGroupIssues :: "string \<times> LabelMapped list \<Rightarrow> ContextIssues Issue list" where
  "labelGroupIssues pair =
     (let otherOwners = snd pair in
      if length otherOwners > 1
      then (let firstLabeledNode = find (\<lambda>x. isNode (owner x)) otherOwners;
                allSameOwner =
                  list_all (\<lambda>x. case firstLabeledNode of
                                   Some f \<Rightarrow> owner x = owner f
                                 | None \<Rightarrow> False) otherOwners
            in if \<not> allSameOwner \<or> firstLabeledNode = None
               then [genIssue [LABEL_ALREADY_IN_USE]
                       (Some (la_ast (item_label (last otherOwners)))) Error
                       (map (\<lambda>x. la_ast (item_label x)) (butlast otherOwners)) (Some [])
                       [label (item_label (last otherOwners))]]
               else [])
      else [])"

text \<open>
  \<^verbatim>\<open>reportLabelIssues\<close>, given \<^verbatim>\<open>this.rootNode.allDescendantsLabelsMapped\<close>: the issues
  it pushes.
\<close>

definition reportLabelIssues :: "LabelMapped list \<Rightarrow> ContextIssues Issue list" where
  "reportLabelIssues items = concat (map labelGroupIssues (lablesUsed items))"

section \<open>Resolving a path\<close>

definition startsWithAmp :: "string \<Rightarrow> bool" where
  "startsWithAmp s = (case s of [] \<Rightarrow> False | c # cs \<Rightarrow> c = CHR ''&'')"

text \<open>
  The two predicates handed to \<^verbatim>\<open>allLabels.find\<close>. \<open>nodeLabels p\<close> stands for
  \<^verbatim>\<open>this.rootNode.getChild(p)?.labels\<close>, \<open>nm\<close> for \<^verbatim>\<open>path[0].slice(1)\<close>.
\<close>

definition childMatch ::
  "(string list \<Rightarrow> LabelAssign list option) \<Rightarrow> string \<Rightarrow> LabelAssign \<Rightarrow> bool" where
  "childMatch nodeLabels nm l =
     (case parentNode l of
        DtcChildNode (Some p) \<Rightarrow>
          (case nodeLabels p of
             Some ls \<Rightarrow> list_ex (\<lambda>ll. label ll = nm) ls
           | None \<Rightarrow> False)
      | _ \<Rightarrow> False)"

definition refMatch :: "string \<Rightarrow> LabelAssign \<Rightarrow> bool" where
  "refMatch nm l =
     (case parentNode l of
        DtcRefNode (Some v) pn \<Rightarrow> v = nm
      | _ \<Rightarrow> False)"

text \<open>\<^verbatim>\<open>childNodeParent?.path\<close> for the label that was found, if any.\<close>

definition childNodeParent_path :: "LabelAssign option \<Rightarrow> string list option" where
  "childNodeParent_path found =
     (case found of
        Some l \<Rightarrow> (case parentNode l of DtcChildNode p \<Rightarrow> p | _ \<Rightarrow> None)
      | None \<Rightarrow> None)"

text \<open>
  The reference node that was found, when its reference has a non-empty label text:
  its \<^verbatim>\<open>pathName\<close>.
\<close>

definition refNodeParent_pathName :: "LabelAssign option \<Rightarrow> string option option" where
  "refNodeParent_pathName found =
     (case found of
        Some l \<Rightarrow>
          (case parentNode l of
             DtcRefNode (Some v) pn \<Rightarrow> if v \<noteq> [] then Some pn else None
           | _ \<Rightarrow> None)
      | None \<Rightarrow> None)"

text \<open>
  \<^verbatim>\<open>resolvePath\<close>. The recursion need not end, and a recursion that does not end fills
  the call stack: \<open>depth\<close> is the number of nested calls the stack still has room for,
  and a call beyond it throws a RangeError. Otherwise a call yields the path, or
  undefined, or throws a TypeError: \<^verbatim>\<open>path?.[0].startsWith\<close> throws on an empty array
  and on an undefined first element. \<open>allLabels\<close> stands for
  \<^verbatim>\<open>this.rootNode.allDescendantsLabels\<close>.
\<close>

fun resolvePath ::
  "nat \<Rightarrow> LabelAssign list \<Rightarrow> (string list \<Rightarrow> LabelAssign list option) \<Rightarrow> string list \<Rightarrow>
   js_error + string list option" where
  "resolvePath 0 allLabels nodeLabels path = Inl RangeError"
| "resolvePath (Suc depth) allLabels nodeLabels path =
     (case path of
        [] \<Rightarrow> Inl TypeError
      | seg # rest \<Rightarrow>
          if \<not> startsWithAmp seg then Inr (Some path)
          else
            (case childNodeParent_path (find (childMatch nodeLabels (drop 1 seg)) allLabels) of
               Some p \<Rightarrow> resolvePath depth allLabels nodeLabels (p @ rest)
             | None \<Rightarrow>
                 (case refNodeParent_pathName (find (refMatch (drop 1 seg)) allLabels) of
                    Some (Some pn) \<Rightarrow> resolvePath depth allLabels nodeLabels [pn]
                  | Some None \<Rightarrow> (case depth of 0 \<Rightarrow> Inl RangeError | Suc d \<Rightarrow> Inl TypeError)
                  | None \<Rightarrow> Inr None)))"

section \<open>Building the context\<close>

text \<open>The state of \<^verbatim>\<open>ContextAware\<close>; \<open>ca_issues\<close> is the field \<^verbatim>\<open>_issues\<close>.\<close>

record ContextAware =
  rootNode :: Node
  ca_issues :: "ContextIssues Issue list"

text \<open>
  \<^verbatim>\<open>ContextAware.process\<close>. \<open>astMap\<close> gives the root document of the cached parse of a
  file, if there is one. \<open>processRoot\<close> is the merge of one root document into the
  context, which the rest of the class defines over the operations of \<^verbatim>\<open>Node\<close>.
\<close>

definition process ::
  "('d \<Rightarrow> ContextAware \<Rightarrow> ContextAware) \<Rightarrow> (string \<Rightarrow> 'd option) \<Rightarrow> string list \<Rightarrow>
   ContextAware \<Rightarrow> ContextAware" where
  "process processRoot astMap fileMap this =
     (let trees = map (\<lambda>file. (file, astMap file)) fileMap in
      if list_ex (\<lambda>tree. snd tree = None) trees then this
      else fold (\<lambda>root s. case snd root of Some tree \<Rightarrow> processRoot tree s | None \<Rightarrow> s)
             trees this)"

text \<open>
  The constructor: a fresh root, \<^verbatim>\<open>process\<close>, then \<^verbatim>\<open>reportLabelIssues\<close>.
  \<open>labelsMapped\<close> stands for the getter \<^verbatim>\<open>allDescendantsLabelsMapped\<close> of \<^verbatim>\<open>Node\<close>.
\<close>

definition new_ContextAware ::
  "('d \<Rightarrow> ContextAware \<Rightarrow> ContextAware) \<Rightarrow> (Node \<Rightarrow> LabelMapped list) \<Rightarrow>
   (string \<Rightarrow> 'd option) \<Rightarrow> string list \<Rightarrow> ContextAware" where
  "new_ContextAware processRoot labelsMapped astMap fileMap =
     (let this0 = \<lparr>rootNode = new_Node ''/'', ca_issues = []\<rparr>;
          this1 = process processRoot astMap fileMap this0
      in this1\<lparr>ca_issues := ca_issues this1 @ reportLabelIssues (labelsMapped (rootNode this1))\<rparr>)"

text \<open>The getter \<^verbatim>\<open>issues\<close> of the context.\<close>

definition ContextAware_issues :: "ContextAware \<Rightarrow> ContextIssues Issue list" where
  "ContextAware_issues this = Node_issues (rootNode this) @ ca_issues this"

section \<open>The check of interrupts-extended\<close>

text \<open>What \<^verbatim>\<open>getInterruptInfo\<close> returns.\<close>

record InterruptInfo =
  cellsProperty :: "Property option"
  info_node :: Node
  cells_value :: "int option"

text \<open>
  The helpers of the standard types and the members of \<^verbatim>\<open>Node\<close> and \<^verbatim>\<open>Property\<close> that
  the check reads are declared outside the sources verified here and are taken as given:
  \<^verbatim>\<open>property.parent\<close>, \<^verbatim>\<open>node.root\<close>, \<^verbatim>\<open>flatNumberValues\<close>, \<^verbatim>\<open>resolvePhandleNode\<close>,
  \<^verbatim>\<open>getInterruptInfo\<close>, \<^verbatim>\<open>node.nodeNameOrLabelRef\<close> and \<^verbatim>\<open>node.path\<close>.
\<close>

record InterruptsEnv =
  property_parent :: "Property \<Rightarrow> Node"
  node_root :: "Node \<Rightarrow> Node"
  flatNumberValues :: "PropertyValues option \<Rightarrow> ASTBase list option"
  resolvePhandleNode :: "ASTBase option \<Rightarrow> Node \<Rightarrow> Node option"
  getInterruptInfo :: "Node \<Rightarrow> InterruptInfo"
  nodeNameOrLabelRef :: "Node \<Rightarrow> ASTBase list"
  node_path :: "Node \<Rightarrow> string list"

text \<open>\<^verbatim>\<open>values[i]\<close> for a number \<open>i\<close>: undefined outside the array.\<close>

definition valueAt :: "ASTBase list \<Rightarrow> int \<Rightarrow> ASTBase option" where
  "valueAt vs i = (if 0 \<le> i \<and> i < int (length vs) then Some (vs ! nat i) else None)"

definition toStringInt :: "int \<Rightarrow> string" where
  "toStringInt i = (if i < 0 then CHR ''-'' # toString (nat (- i)) else toString (nat i))"

text \<open>The warnings about \<^verbatim>\<open>interrupts\<close> and \<^verbatim>\<open>interrupt-parent\<close> in the same node.\<close>

definition ignoredIssues :: "InterruptsEnv \<Rightarrow> Property \<Rightarrow> StandardTypeIssue Issue list" where
  "ignoredIssues env property =
     (let parentNode0 = property_parent env property in
      (case getProperty parentNode0 ''interrupts'' of
         Some interrupts \<Rightarrow>
           [genIssue [IGNORED] (Some (dp_ast (ast interrupts))) Warning
              [dp_ast (ast property)] (Some [])
              [name interrupts, ''is ignored when 'interrupts-extended' is used'']]
       | None \<Rightarrow> []) @
      (case getProperty parentNode0 ''interrupt-parent'' of
         Some interruptParent \<Rightarrow>
           [genIssue [IGNORED] (Some (dp_ast (ast interruptParent))) Warning
              [dp_ast (ast property)] (Some [])
              [name interruptParent, ''is ignored when 'interrupts-extended' is used'']]
       | None \<Rightarrow> []))"

text \<open>
  The \<^verbatim>\<open>while\<close> loop. The index advances by a number read from the tree, so the loop
  need not end: \<open>None\<close> is a loop that runs forever.
\<close>

partial_function (option) interruptsLoop ::
  "InterruptsEnv \<Rightarrow> Property \<Rightarrow> Node \<Rightarrow> ASTBase list \<Rightarrow> int \<Rightarrow>
   StandardTypeIssue Issue list \<Rightarrow> StandardTypeIssue Issue list option" where
  "interruptsLoop env property rt vs i issues0 =
     (if i < int (length vs)
      then
        (case resolvePhandleNode env (valueAt vs i) rt of
           None \<Rightarrow>
             Some (issues0 @
               [genIssue [INTERRUPTS_PARENT_NODE_NOT_FOUND] (valueAt vs i) Error [] None []])
         | Some phandleNode \<Rightarrow>
             (case cellsProperty (getInterruptInfo env phandleNode) of
                None \<Rightarrow>
                  Some (issues0 @
                    [genIssue [PROPERTY_REQUIRES_OTHER_PROPERTY_IN_NODE]
                       (Some (dp_ast (ast property))) Error
                       (nodeNameOrLabelRef env (info_node (getInterruptInfo env phandleNode)))
                       (Some [])
                       [name property, ''#interrupt-cells'',
                        ''/'' @ join ''/''
                          (drop 1 (node_path env (info_node (getInterruptInfo env phandleNode))))]])
              | Some cp \<Rightarrow>
                  (case cells_value (getInterruptInfo env phandleNode) of
                     None \<Rightarrow> Some issues0
                   | Some c \<Rightarrow>
                       if c > int (length vs) - i - 1
                       then Some (issues0 @
                              [genIssue [INTERRUPTS_VALUE_CELL_MISS_MATCH] (valueAt vs i) Error
                                 [dp_ast (ast cp)] (Some []) [name property, toStringInt c]])
                       else interruptsLoop env property rt vs (i + c + 1) issues0)))
      else Some issues0)"

definition interruptsExtendedCheck ::
  "InterruptsEnv \<Rightarrow> Property \<Rightarrow> StandardTypeIssue Issue list option" where
  "interruptsExtendedCheck env property =
     (let issues0 = ignoredIssues env property;
          rt = node_root env (property_parent env property)
      in case flatNumberValues env (dp_values (ast property)) of
           None \<Rightarrow> Some []
         | Some vs \<Rightarrow>
             if vs = [] then Some [] else interruptsLoop env property rt vs 0 issues0)"

text \<open>
  The walk in the words of the specification: the values are consumed as tuples of a
  phandle and the cells behind it, as many as the \<^verbatim>\<open>#interrupt-cells\<close> of the node
  the phandle resolves to. The walk ends at the first tuple that is at fault.
\<close>

fun tupleWalk ::
  "InterruptsEnv \<Rightarrow> Property \<Rightarrow> Node \<Rightarrow> ASTBase list \<Rightarrow> StandardTypeIssue Issue list" where
  "tupleWalk env property rt [] = []"
| "tupleWalk env property rt (phandle # cells) =
     (case resolvePhandleNode env (Some phandle) rt of
        None \<Rightarrow> [genIssue [INTERRUPTS_PARENT_NODE_NOT_FOUND] (Some phandle) Error [] None []]
      | Some target \<Rightarrow>
          (case cellsProperty (getInterruptInfo env target) of
             None \<Rightarrow>
               [genIssue [PROPERTY_REQUIRES_OTHER_PROPERTY_IN_NODE]
                  (Some (dp_ast (ast property))) Error
                  (nodeNameOrLabelRef env (info_node (getInterruptInfo env target)))
                  (Some [])
                  [name property, ''#interrupt-cells'',
                   ''/'' @ join ''/''
                     (drop 1 (node_path env (info_node (getInterruptInfo env target))))]]
           | Some cp \<Rightarrow>
               (case cells_value (getInterruptInfo env target) of
                  None \<Rightarrow> []
                | Some c \<Rightarrow>
                    if int (length cells) < c
                    then [genIssue [INTERRUPTS_VALUE_CELL_MISS_MATCH] (Some phandle) Error
                            [dp_ast (ast cp)] (Some []) [name property, toStringInt c]]
                    else tupleWalk env property rt (drop (nat c) cells))))"


section \<open>Theorems\<close>

text \<open>
  C1. The value profile of a property: a string literal is STRING; a cell array with one
  cell is U32, with two cells U64, with more cells PROP_ENCODED_ARRAY; a label reference
  and a node-path reference are U32; the profile lists the classes of the values in
  order, and a property without values has the profile [EMPTY].
\<close>

theorem value_profile_classification:
  "propertyValueToPropetyType (Some (PropertyValue a (StringValue b s))) = STRING
   \<and> propertyValueToPropetyType (Some (PropertyValue a (ArrayValues b [c1]))) = U32
   \<and> propertyValueToPropetyType (Some (PropertyValue a (ArrayValues b [c1, c2]))) = U64
   \<and> propertyValueToPropetyType
        (Some (PropertyValue a (ArrayValues b (c1 # c2 # c3 # cs)))) = PROP_ENCODED_ARRAY
   \<and> propertyValueToPropetyType (Some (PropertyValue a (LabelRef b))) = U32
   \<and> propertyValueToPropetyType (Some (PropertyValue a (NodePathRef b))) = U32
   \<and> propertyValuesToPropetyType (Property (DtcProperty d n (Some (PropertyValues e vs))) r)
       = map propertyValueToPropetyType vs
   \<and> propertyValuesToPropetyType (Property (DtcProperty d n None) r) = [EMPTY]"
  by (simp add: propertyValuesToPropetyType_def)

lemma list_ex_eq_mem: "list_ex (\<lambda>tt. tt = t) xs = (t \<in> set xs)"
  by (induction xs) auto

lemma concat_expectedIssue:
  "concat (map expectedIssue expected) =
   concat (map expectedIssue (filter (\<lambda>tt. tt \<noteq> BYTESTRING \<and> tt \<noteq> UNKNOWN) expected))"
  by (induction expected) auto

lemma concat_expectedIssue_Nil:
  "(concat (map expectedIssue expected) = []) = (list_all (\<lambda>tt. tt = BYTESTRING \<or> tt = UNKNOWN) expected)"
proof (induction expected)
  case Nil
  show ?case by simp
next
  case (Cons tt expected)
  then show ?case by (cases tt) simp_all
qed

lemma length_concat_expectedIssue:
  "length (concat (map expectedIssue expected)) =
   length (filter (\<lambda>tt. tt \<noteq> BYTESTRING \<and> tt \<noteq> UNKNOWN) expected)"
proof (induction expected)
  case Nil
  show ?case by simp
next
  case (Cons tt expected)
  then show ?case by (cases tt) simp_all
qed

lemma checkType_valid: "typeIsValid expected t \<Longrightarrow> checkType property expected t a = []"
  by (simp add: checkType_def)

lemma checkType_invalid:
  assumes "\<not> typeIsValid expected t"
  shows "checkType property expected t a =
          (if list_all (\<lambda>tt. tt = BYTESTRING \<or> tt = UNKNOWN) expected then []
           else [genIssue (concat (map expectedIssue expected))
                   (Some (case a of Some x \<Rightarrow> x | None \<Rightarrow> dp_ast (ast property)))
                   Error [] (Some []) [name property]])"
proof -
  have eq: "checkType property expected t a =
      (if concat (map expectedIssue expected) \<noteq> []
       then [genIssue (concat (map expectedIssue expected))
               (Some (case a of Some x \<Rightarrow> x | None \<Rightarrow> dp_ast (ast property)))
               Error [] (Some []) [name property]]
       else [])"
    using assms unfolding checkType_def Let_def by (simp del: concat_eq_Nil_conv)
  show ?thesis
    unfolding eq concat_expectedIssue_Nil by simp
qed

lemma typeIsValid_iff:
  "typeIsValid expected t \<longleftrightarrow>
      (t \<in> set expected
       \<or> (STRINGLIST \<in> set expected \<and> (t = STRING \<or> t = STRINGLIST))
       \<or> (PROP_ENCODED_ARRAY \<in> set expected \<and> (t = U32 \<or> t = U64)))"
  by (simp add: typeIsValid_def list_ex_eq_mem)

text \<open>
  C2 (amended). A type is accepted by a slot exactly when it is a member of the slot, or
  the slot holds STRINGLIST and the type is STRING or STRINGLIST, or the slot holds
  PROP_ENCODED_ARRAY and the type is U32 or U64. An accepted type yields no diagnostic.
  A type that is not accepted yields one diagnostic whose kinds are, in slot order, the
  EXPECTED kind of every expected type that has one: EMPTY, STRING, STRINGLIST, U32, U64
  and PROP_ENCODED_ARRAY push their kind, BYTESTRING and UNKNOWN push nothing, and a slot
  of only such types yields no diagnostic at all.
\<close>

theorem checkType_accepts:
  "(typeIsValid expected t \<longleftrightarrow>
      (t \<in> set expected
       \<or> (STRINGLIST \<in> set expected \<and> (t = STRING \<or> t = STRINGLIST))
       \<or> (PROP_ENCODED_ARRAY \<in> set expected \<and> (t = U32 \<or> t = U64))))
   \<and> (typeIsValid expected t \<longrightarrow> checkType property expected t a = [])
   \<and> (\<not> typeIsValid expected t \<longrightarrow>
        checkType property expected t a =
          (if list_all (\<lambda>tt. tt = BYTESTRING \<or> tt = UNKNOWN) expected then []
           else [genIssue (concat (map expectedIssue expected))
                   (Some (case a of Some x \<Rightarrow> x | None \<Rightarrow> dp_ast (ast property)))
                   Error [] (Some []) [name property]]))
   \<and> length (concat (map expectedIssue expected)) =
       length (filter (\<lambda>tt. tt \<noteq> BYTESTRING \<and> tt \<noteq> UNKNOWN) expected)
   \<and> expectedIssue EMPTY = [EXPECTED_EMPTY]
   \<and> expectedIssue STRING = [EXPECTED_STRING]
   \<and> expectedIssue STRINGLIST = [EXPECTED_STRINGLIST]
   \<and> expectedIssue U32 = [EXPECTED_U32]
   \<and> expectedIssue U64 = [EXPECTED_U64]
   \<and> expectedIssue PROP_ENCODED_ARRAY = [EXPECTED_PROP_ENCODED_ARRAY]
   \<and> expectedIssue BYTESTRING = []
   \<and> expectedIssue UNKNOWN = []"
proof (intro conjI impI)
  show "typeIsValid expected t \<longleftrightarrow>
      (t \<in> set expected
       \<or> (STRINGLIST \<in> set expected \<and> (t = STRING \<or> t = STRINGLIST))
       \<or> (PROP_ENCODED_ARRAY \<in> set expected \<and> (t = U32 \<or> t = U64)))"
    by (rule typeIsValid_iff)
  show "length (concat (map expectedIssue expected)) =
       length (filter (\<lambda>tt. tt \<noteq> BYTESTRING \<and> tt \<noteq> UNKNOWN) expected)"
    by (rule length_concat_expectedIssue)
qed (simp_all add: checkType_valid checkType_invalid)


lemmas validate_defs = validate_def validateProperty_def getProperty_def name_def
  propertyValuesToPropetyType_def slotIssues_def compositeIssues_def enumIssues_def
  checkType_def typeIsValid_def firstValue_def currentValueMember_def valueAstAt_def
  valuesAst_def genIssue_def

text \<open>
  C2, as stated, fails on a slot that holds BYTESTRING: a string value is not accepted by
  the slot [BYTESTRING], and validation reports nothing.
\<close>

theorem checkType_bytestring_slot_counterexample:
  "\<not> typeIsValid [BYTESTRING] STRING
   \<and> validate \<lparr>valueMember = \<lambda>cv. NoMember, newRegExp = \<lambda>pat. None\<rparr>
       (\<lambda>n. [])
       (PropertyNodeType (NameString ''p'') [[BYTESTRING]] (\<lambda>n. Optional) (\<lambda>p. []) None False)
       (Node ''/'' []
          [Property (DtcProperty 10 (Some ''p'')
             (Some (PropertyValues 11 [Some (PropertyValue 12 (StringValue 13 ''a''))]))) None]
          [])
     = Inr []"
  by (simp add: validate_defs)

theorem checkType_accepts_witness:
  "typeIsValid [STRINGLIST] STRING
   \<and> checkType (Property (DtcProperty 10 (Some ''p'') None) None) [STRINGLIST] STRING None = []
   \<and> \<not> typeIsValid [U32, BYTESTRING] STRING
   \<and> checkType (Property (DtcProperty 10 (Some ''p'') None) None) [U32, BYTESTRING] STRING
        (Some 12)
      = [genIssue [EXPECTED_U32] (Some 12) Error [] (Some []) [''p'']]"
  using checkType_accepts [of "[STRINGLIST]" STRING "Property (DtcProperty 10 (Some ''p'') None) None" None]
    checkType_accepts [of "[U32, BYTESTRING]" STRING
      "Property (DtcProperty 10 (Some ''p'') None) None" "Some 12"]
  by (simp add: name_def)

text \<open>
  C3. With the two slots [STRING] and [U32] and two values, every position is compared
  with the first slot: two strings pass although a string is not acceptable to the
  second slot, and a string followed by a one-cell array is reported at the array
  although that array is acceptable to the second slot.
\<close>

theorem composite_positions_checked_against_first_slot:
  "\<not> typeIsValid [U32] STRING
   \<and> validate \<lparr>valueMember = \<lambda>cv. NoMember, newRegExp = \<lambda>pat. None\<rparr>
       (\<lambda>n. [])
       (PropertyNodeType (NameString ''p'') [[STRING], [U32]] (\<lambda>n. Optional) (\<lambda>p. []) None False)
       (Node ''/'' []
          [Property (DtcProperty 10 (Some ''p'')
             (Some (PropertyValues 11
                [Some (PropertyValue 12 (StringValue 13 ''a'')),
                 Some (PropertyValue 14 (StringValue 15 ''b''))]))) None]
          [])
     = Inr []
   \<and> typeIsValid [U32] U32
   \<and> validate \<lparr>valueMember = \<lambda>cv. NoMember, newRegExp = \<lambda>pat. None\<rparr>
       (\<lambda>n. [])
       (PropertyNodeType (NameString ''p'') [[STRING], [U32]] (\<lambda>n. Optional) (\<lambda>p. []) None False)
       (Node ''/'' []
          [Property (DtcProperty 10 (Some ''p'')
             (Some (PropertyValues 11
                [Some (PropertyValue 12 (StringValue 13 ''a'')),
                 Some (PropertyValue 14 (ArrayValues 15 [16]))]))) None]
          [])
     = Inr [genIssue [EXPECTED_STRINGLIST] (Some 14) Error [] None []]"
  by (simp add: validate_defs upt_rec)

text \<open>
  C5. A binding with enumerated entries and the slot [EMPTY, STRING], applied to a
  property without values: the type test passes, and the enumeration test reads the
  text of a first value that is not there, which throws.
\<close>

theorem enum_check_throws_without_first_value:
  "validate \<lparr>valueMember = \<lambda>cv. NoMember, newRegExp = \<lambda>pat. None\<rparr>
       (\<lambda>n. [])
     (PropertyNodeType (NameString ''p'') [[EMPTY, STRING]] (\<lambda>n. Optional) (\<lambda>p. [''a''])
        None False)
     (Node ''/'' [] [Property (DtcProperty 10 (Some ''p'') None) None] [])
   = Inl TypeError"
  by (simp add: validate_defs)

lemma find_None_names: "find (\<lambda>p. name p = n) ps = None \<longleftrightarrow> n \<notin> name ` set ps"
  by (induction ps) auto

text \<open>
  C4. For a binding with a string name: when the node has no property of that name and
  the binding is required, validation yields the single REQUIRED diagnostic, an error on
  the first AST element of the node that links the others; when the node has a property
  of that name and the binding is omitted, validation yields the single OMITTED error on
  that property; an absent property that is not required yields nothing.
\<close>

theorem required_and_omitted:
  assumes "pnt_name this = NameString n"
  shows "(pnt_required this node = Required \<and> n \<notin> name ` set (properties node) \<longrightarrow>
           validate js runtime this node =
             Inr [genIssue [REQUIRED]
                    (case runtime node of [] \<Rightarrow> None | a # as \<Rightarrow> Some a)
                    Error (drop 1 (runtime node)) (Some []) [n]])
       \<and> (pnt_required this node = Ommited \<and> n \<in> name ` set (properties node) \<longrightarrow>
           (\<exists>p. p \<in> set (properties node) \<and> name p = n \<and>
             validate js runtime this node =
               Inr [genIssue [OMITTED] (Some (dp_ast (ast p))) Error [] (Some []) [n]]))
       \<and> (pnt_required this node \<noteq> Required \<and> n \<notin> name ` set (properties node) \<longrightarrow>
           validate js runtime this node = Inr [])"
proof (intro conjI impI)
  assume a: "pnt_required this node = Required \<and> n \<notin> name ` set (properties node)"
  then have "find (\<lambda>p. name p = n) (properties node) = None"
    by (simp add: find_None_names)
  with a show "validate js runtime this node =
             Inr [genIssue [REQUIRED]
                    (case runtime node of [] \<Rightarrow> None | a # as \<Rightarrow> Some a)
                    Error (drop 1 (runtime node)) (Some []) [n]]"
    using assms by (simp add: validate_def validateProperty_def getProperty_def Let_def)
next
  assume a: "pnt_required this node = Ommited \<and> n \<in> name ` set (properties node)"
  then obtain p where p: "find (\<lambda>p. name p = n) (properties node) = Some p"
    using find_None_names [of n "properties node"] by fastforce
  then have "p \<in> set (properties node) \<and> name p = n"
    by (auto simp: find_Some_iff)
  moreover have "validate js runtime this node =
               Inr [genIssue [OMITTED] (Some (dp_ast (ast p))) Error [] (Some []) [n]]"
    using assms a p by (simp add: validate_def validateProperty_def getProperty_def)
  ultimately show "\<exists>p. p \<in> set (properties node) \<and> name p = n \<and>
             validate js runtime this node =
               Inr [genIssue [OMITTED] (Some (dp_ast (ast p))) Error [] (Some []) [n]]"
    by blast
next
  assume a: "pnt_required this node \<noteq> Required \<and> n \<notin> name ` set (properties node)"
  then have "find (\<lambda>p. name p = n) (properties node) = None"
    by (simp add: find_None_names)
  with a show "validate js runtime this node = Inr []"
    using assms by (simp add: validate_def validateProperty_def getProperty_def Let_def)
qed

theorem required_and_omitted_witness:
  "validate \<lparr>valueMember = \<lambda>cv. NoMember, newRegExp = \<lambda>pat. None\<rparr>
       (\<lambda>n. [3, 4])
     (PropertyNodeType (NameString ''reg'') [[U32]] (\<lambda>n. Required) (\<lambda>p. []) None False)
     (Node ''/'' [] [] [])
   = Inr [genIssue [REQUIRED] (Some 3) Error [4] (Some []) [''reg'']]
   \<and> validate \<lparr>valueMember = \<lambda>cv. NoMember, newRegExp = \<lambda>pat. None\<rparr>
       (\<lambda>n. [])
     (PropertyNodeType (NameString ''reg'') [[U32]] (\<lambda>n. Ommited) (\<lambda>p. []) None False)
     (Node ''/'' [] [Property (DtcProperty 10 (Some ''reg'') None) None] [])
   = Inr [genIssue [OMITTED] (Some 10) Error [] (Some []) [''reg'']]
   \<and> validate \<lparr>valueMember = \<lambda>cv. NoMember, newRegExp = \<lambda>pat. None\<rparr>
       (\<lambda>n. [])
     (PropertyNodeType (NameString ''reg'') [[U32]] (\<lambda>n. Ommited) (\<lambda>p. []) None False)
     (Node ''/'' [] [] [])
   = Inr []"
  using required_and_omitted [of "PropertyNodeType (NameString ''reg'') [[U32]] (\<lambda>n. Required) (\<lambda>p. []) None False"
      "''reg''" "Node ''/'' [] [] []" "\<lparr>valueMember = \<lambda>cv. NoMember, newRegExp = \<lambda>pat. None\<rparr>" "\<lambda>n. [3, 4]"]
    required_and_omitted [of "PropertyNodeType (NameString ''reg'') [[U32]] (\<lambda>n. Ommited) (\<lambda>p. []) None False"
      "''reg''" "Node ''/'' [] [Property (DtcProperty 10 (Some ''reg'') None) None] []"
      "\<lparr>valueMember = \<lambda>cv. NoMember, newRegExp = \<lambda>pat. None\<rparr>" "\<lambda>n. []"]
    required_and_omitted [of "PropertyNodeType (NameString ''reg'') [[U32]] (\<lambda>n. Ommited) (\<lambda>p. []) None False"
      "''reg''" "Node ''/'' [] [] []" "\<lparr>valueMember = \<lambda>cv. NoMember, newRegExp = \<lambda>pat. None\<rparr>" "\<lambda>n. []"]
  by (simp add: name_def)

lemma replacedIssues_chain:
  "replacedIssues p =
     rev (map (\<lambda>(q, r). \<lparr>issues = [DUPLICATE_PROPERTY_NAME], astElement = Some (dp_ast (ast r)),
                 severity = Hint, linkedTo = [dp_ast (ast q)], tags = Some [Unnecessary],
                 templateStrings = [name q]\<rparr>)
            (zip (p # allReplaced p) (allReplaced p)))"
  by (induction p rule: replacedIssues.induct) simp_all

lemma dropWhile_find:
  "find P xs = Some x \<Longrightarrow> \<exists>ys. dropWhile (\<lambda>p. \<not> P p) xs = x # ys"
  by (induction xs) (auto split: if_splits)

text \<open>
  C8. When a property element with a name is merged into a node that holds a property
  of that name, the new property is appended with its \<open>replaces\<close> set to the previous
  one. Its issues are those of the previous one followed by DUPLICATE_PROPERTY_NAME on
  the previous element, a hint tagged Unnecessary that links the new element. Along any
  chain, every replaced definition has one such issue, oldest first, each linking the
  definition that replaced it.
\<close>

theorem duplicate_property_replaces:
  assumes "propertyName element = Some n" and "n \<noteq> []"
    and "getProperty node n = Some prev"
  shows "last (properties (processDtcProperty element node)) = Property element (Some prev)
    \<and> replaces (last (properties (processDtcProperty element node))) = Some prev
    \<and> replacedIssues (Property element (Some prev)) =
        replacedIssues prev @
        [\<lparr>issues = [DUPLICATE_PROPERTY_NAME], astElement = Some (dp_ast (ast prev)),
          severity = Hint, linkedTo = [dp_ast element], tags = Some [Unnecessary],
          templateStrings = [n]\<rparr>]
    \<and> replacedIssues p =
        rev (map (\<lambda>(q, r). \<lparr>issues = [DUPLICATE_PROPERTY_NAME],
                    astElement = Some (dp_ast (ast r)),
                    severity = Hint, linkedTo = [dp_ast (ast q)], tags = Some [Unnecessary],
                    templateStrings = [name q]\<rparr>)
               (zip (p # allReplaced p) (allReplaced p)))"
proof -
  from assms(3) obtain ys where
    dw: "dropWhile (\<lambda>p. name p \<noteq> n) (properties node) = prev # ys"
    using dropWhile_find [of "\<lambda>p. name p = n" "properties node" prev]
    by (auto simp: getProperty_def)
  have nm: "name (Property element None) = n"
    using assms(1) by (simp add: name_def)
  have ap: "properties (addProperty node (Property element None)) =
      takeWhile (\<lambda>p. name p \<noteq> n) (properties node) @ ys @ [Property element (Some prev)]"
    unfolding addProperty_def Let_def nm dw by simp
  have pd: "processDtcProperty element node = addProperty node (Property element None)"
    using assms(1,2) by (simp add: processDtcProperty_def)
  have "name prev = n"
    using assms(3) by (auto simp: getProperty_def find_Some_iff)
  then have notin: "prev \<notin> set (takeWhile (\<lambda>p. name p \<noteq> n) (properties node))"
    by (auto dest: set_takeWhileD)
  show ?thesis
    using ap pd notin assms(1) replacedIssues_chain [of p] by (simp add: name_def)
qed


theorem duplicate_property_replaces_witness:
  "last (properties (processDtcProperty (DtcProperty 20 (Some ''p'') None)
      (Node ''/'' [] [Property (DtcProperty 10 (Some ''p'') None) None] [])))
    = Property (DtcProperty 20 (Some ''p'') None)
        (Some (Property (DtcProperty 10 (Some ''p'') None) None))
   \<and> replacedIssues (Property (DtcProperty 20 (Some ''p'') None)
        (Some (Property (DtcProperty 10 (Some ''p'') None) None)))
     = [\<lparr>issues = [DUPLICATE_PROPERTY_NAME], astElement = Some 10,
          severity = Hint, linkedTo = [20], tags = Some [Unnecessary],
          templateStrings = [''p'']\<rparr>]"
  using duplicate_property_replaces [of "DtcProperty 20 (Some ''p'') None" "''p''"
      "Node ''/'' [] [Property (DtcProperty 10 (Some ''p'') None) None] []"
      "Property (DtcProperty 10 (Some ''p'') None) None"]
  by (simp add: getProperty_def name_def)



lemma map_of_lablesUsed_add:
  "map_of (lablesUsed_add x m) t =
     (if label (item_label x) = t
      then Some ((case map_of m t of None \<Rightarrow> [] | Some g \<Rightarrow> g) @ [x])
      else map_of m t)"
  by (simp add: lablesUsed_add_def AList.update_conv' split: option.splits)

lemma distinct_lablesUsed_add:
  "distinct (map fst m) \<Longrightarrow> distinct (map fst (lablesUsed_add x m))"
  by (simp add: lablesUsed_add_def AList.distinct_update split: option.splits)

lemma fold_lablesUsed_add:
  "map_of (fold lablesUsed_add xs m) t =
     (let g = filter (\<lambda>x. label (item_label x) = t) xs in
      case map_of m t of
        None \<Rightarrow> (if g = [] then None else Some g)
      | Some g0 \<Rightarrow> Some (g0 @ g))"
proof (induction xs arbitrary: m)
  case Nil
  show ?case by (simp split: option.splits)
next
  case (Cons x xs)
  show ?case
    by (simp add: Cons.IH map_of_lablesUsed_add Let_def split: option.splits)
qed

lemma distinct_fold_lablesUsed_add:
  "distinct (map fst m) \<Longrightarrow> distinct (map fst (fold lablesUsed_add xs m))"
  by (induction xs arbitrary: m) (simp_all add: distinct_lablesUsed_add)

lemma map_of_lablesUsed:
  "map_of (lablesUsed xs) t =
     (if filter (\<lambda>x. label (item_label x) = t) xs = [] then None
      else Some (filter (\<lambda>x. label (item_label x) = t) xs))"
  by (simp add: lablesUsed_def fold_lablesUsed_add Let_def)

lemma distinct_lablesUsed: "distinct (map fst (lablesUsed xs))"
  by (simp add: lablesUsed_def distinct_fold_lablesUsed_add)

lemma lablesUsed_entry:
  assumes "(k, g) \<in> set (lablesUsed xs)"
  shows "g = filter (\<lambda>x. label (item_label x) = k) xs \<and> g \<noteq> []"
proof -
  have "map_of (lablesUsed xs) k = Some g"
    using assms distinct_lablesUsed by (simp add: map_of_is_SomeI)
  then show ?thesis
    by (simp add: map_of_lablesUsed split: if_splits)
qed

lemma labelGroupIssues_templ:
  assumes "i \<in> set (labelGroupIssues (k, g))"
    and "g = filter (\<lambda>x. label (item_label x) = k) xs" and "g \<noteq> []"
  shows "templateStrings i = [k]"
proof -
  have "last g \<in> set g" using assms(3) by simp
  then have "label (item_label (last g)) = k"
    using assms(2) by (metis (mono_tags, lifting) mem_Collect_eq set_filter)
  then show ?thesis
    using assms(1) by (auto simp: labelGroupIssues_def Let_def genIssue_def split: if_splits)
qed

lemma filter_group_issues:
  assumes "distinct (map fst al)"
    and "\<And>k g. (k, g) \<in> set al \<Longrightarrow> g = filter (\<lambda>x. label (item_label x) = k) xs \<and> g \<noteq> []"
  shows "filter (\<lambda>i. templateStrings i = [t]) (concat (map labelGroupIssues al)) =
         (case map_of al t of None \<Rightarrow> [] | Some g \<Rightarrow> labelGroupIssues (t, g))"
  using assms
proof (induction al)
  case Nil
  show ?case by simp
next
  case (Cons e al)
  obtain k g where e: "e = (k, g)" by (cases e)
  have kg: "g = filter (\<lambda>x. label (item_label x) = k) xs \<and> g \<noteq> []"
    by (rule Cons.prems(2)) (simp add: e)
  have IH: "filter (\<lambda>i. templateStrings i = [t]) (concat (map labelGroupIssues al)) =
         (case map_of al t of None \<Rightarrow> [] | Some g \<Rightarrow> labelGroupIssues (t, g))"
  proof (rule Cons.IH)
    show "distinct (map fst al)" using Cons.prems(1) by simp
  next
    fix k' g'
    assume "(k', g') \<in> set al"
    then have "(k', g') \<in> set (e # al)" by simp
    then show "g' = filter (\<lambda>x. label (item_label x) = k') xs \<and> g' \<noteq> []"
      by (rule Cons.prems(2))
  qed
  have all_k: "\<forall>i \<in> set (labelGroupIssues (k, g)). templateStrings i = [k]"
    using labelGroupIssues_templ kg by blast
  show ?case
  proof (cases "k = t")
    case True
    then have "map_of al t = None"
      using Cons.prems(1) e by (simp add: map_of_eq_None_iff)
    moreover have "filter (\<lambda>i. templateStrings i = [t]) (labelGroupIssues (k, g)) =
        labelGroupIssues (k, g)"
      using all_k True by (simp add: filter_id_conv)
    ultimately show ?thesis using IH e True by simp
  next
    case False
    then have "filter (\<lambda>i. templateStrings i = [t]) (labelGroupIssues (k, g)) = []"
      using all_k by (auto simp: filter_empty_conv)
    then show ?thesis using IH e False by simp
  qed
qed

lemma labelGroupIssues_conflict:
  assumes "length g > 1" and "a \<in> set g" and "b \<in> set g" and "owner a \<noteq> owner b"
  shows "labelGroupIssues (t, g) =
     [genIssue [LABEL_ALREADY_IN_USE] (Some (la_ast (item_label (last g)))) Error
        (map (\<lambda>x. la_ast (item_label x)) (butlast g)) (Some [])
        [label (item_label (last g))]]"
proof (cases "find (\<lambda>x. isNode (owner x)) g")
  case None
  then show ?thesis using assms(1) by (simp add: labelGroupIssues_def)
next
  case (Some f)
  have "\<not> list_all (\<lambda>x. owner x = owner f) g"
  proof
    assume "list_all (\<lambda>x. owner x = owner f) g"
    then have "owner a = owner f" and "owner b = owner f"
      using assms(2,3) by (auto simp: list_all_iff)
    then show False using assms(4) by simp
  qed
  then show ?thesis using assms(1) Some by (simp add: labelGroupIssues_def)
qed

text \<open>
  C7. The labels of the tree are grouped by their text. A group of more than one label
  in which two owners differ pushes exactly one issue: LABEL_ALREADY_IN_USE, an error on
  the last label of the group that links every earlier label of the group, the
  conflicting ones among them, and carries the text.
\<close>

theorem label_already_in_use:
  assumes "g = filter (\<lambda>x. label (item_label x) = t) items"
    and "length g > 1"
    and "a \<in> set g" and "b \<in> set g" and "owner a \<noteq> owner b"
  shows "filter (\<lambda>i. templateStrings i = [t]) (reportLabelIssues items) =
     [genIssue [LABEL_ALREADY_IN_USE] (Some (la_ast (item_label (last g)))) Error
        (map (\<lambda>x. la_ast (item_label x)) (butlast g)) (Some []) [t]]"
proof -
  have ne: "g \<noteq> []" using assms(2) by auto
  have "last g \<in> set g" using ne by simp
  then have lt: "label (item_label (last g)) = t"
    using assms(1) by (metis (mono_tags, lifting) mem_Collect_eq set_filter)
  have "map_of (lablesUsed items) t = Some g"
    using ne assms(1) by (simp add: map_of_lablesUsed)
  then have "filter (\<lambda>i. templateStrings i = [t]) (reportLabelIssues items) =
      labelGroupIssues (t, g)"
    unfolding reportLabelIssues_def
    using filter_group_issues [OF distinct_lablesUsed, of items items t] lablesUsed_entry
    by simp
  then show ?thesis
    using labelGroupIssues_conflict [OF assms(2-5), of t] lt by simp
qed

theorem label_already_in_use_witness:
  "filter (\<lambda>i. templateStrings i = [''l''])
     (reportLabelIssues
        [LabelMapped (LabelAssign 1 ''l'' OtherElement) (Some (NodeOwner 1)),
         LabelMapped (LabelAssign 2 ''m'' OtherElement) (Some (NodeOwner 3)),
         LabelMapped (LabelAssign 3 ''l'' OtherElement) (Some (NodeOwner 2))])
   = [genIssue [LABEL_ALREADY_IN_USE] (Some 3) Error [1] (Some []) [''l'']]"
  using label_already_in_use [OF refl,
      where t = "''l''"
        and items = "[LabelMapped (LabelAssign 1 ''l'' OtherElement) (Some (NodeOwner 1)),
                      LabelMapped (LabelAssign 2 ''m'' OtherElement) (Some (NodeOwner 3)),
                      LabelMapped (LabelAssign 3 ''l'' OtherElement) (Some (NodeOwner 2))]"
        and a = "LabelMapped (LabelAssign 1 ''l'' OtherElement) (Some (NodeOwner 1))"
        and b = "LabelMapped (LabelAssign 3 ''l'' OtherElement) (Some (NodeOwner 2))"]
  by simp

lemma childMatch_iff:
  "childMatch N nm l \<longleftrightarrow>
     (\<exists>p ls. parentNode l = DtcChildNode (Some p) \<and> N p = Some ls \<and> nm \<in> label ` set ls)"
  by (auto simp: childMatch_def list_ex_iff split: AstParent.splits option.splits)

lemma refMatch_iff:
  "refMatch nm l \<longleftrightarrow> (\<exists>pn. parentNode l = DtcRefNode (Some nm) pn)"
  by (auto simp: refMatch_def split: AstParent.splits option.splits)

text \<open>
  The parts of the resolution that return: a first segment without an ampersand gives
  the path back; a label found through a child node element continues with the path of
  that element and the remaining segments; a label found nowhere gives undefined.
\<close>

lemma resolvePath_returning_cases:
  "(\<not> startsWithAmp seg \<longrightarrow>
      resolvePath (Suc depth) L N (seg # rest) = Inr (Some (seg # rest)))
   \<and> (startsWithAmp seg \<and> find (childMatch N (drop 1 seg)) L = Some l
        \<and> parentNode l = DtcChildNode (Some p) \<longrightarrow>
      resolvePath (Suc depth) L N (seg # rest) = resolvePath depth L N (p @ rest))
   \<and> (startsWithAmp seg \<and> find (childMatch N (drop 1 seg)) L = None
        \<and> find (refMatch (drop 1 seg)) L = None \<longrightarrow>
      resolvePath (Suc depth) L N (seg # rest) = Inr None)"
  by (simp add: childNodeParent_path_def refNodeParent_pathName_def)



text \<open>
  C10. When some file of the file map has no cached parse, \<^verbatim>\<open>process\<close> merges nothing
  whatever the merge of a root document would do: the context keeps the fresh root
  \<open>/\<close> without definitions, properties or children, and its issues are only the label
  issues of that root, none when it has no labels.
\<close>

theorem missing_parse_merges_nothing:
  assumes "uri \<in> set fileMap" and "astMap uri = None"
  shows "process processRoot astMap fileMap this = this
    \<and> rootNode (new_ContextAware processRoot labelsMapped astMap fileMap) = Node ''/'' [] [] []
    \<and> ContextAware_issues (new_ContextAware processRoot labelsMapped astMap fileMap) =
        reportLabelIssues (labelsMapped (Node ''/'' [] [] []))
    \<and> (labelsMapped (Node ''/'' [] [] []) = [] \<longrightarrow>
        ContextAware_issues (new_ContextAware processRoot labelsMapped astMap fileMap) = [])"
proof -
  have ex: "list_ex (\<lambda>tree. snd tree = None) (map (\<lambda>file. (file, astMap file)) fileMap)"
    using assms by (auto simp: list_ex_iff)
  have p: "process processRoot astMap fileMap this = this" for this
    using ex by (simp add: process_def)
  have r: "reportLabelIssues [] = []"
    by (simp add: reportLabelIssues_def lablesUsed_def)
  show ?thesis
    by (simp add: p r new_ContextAware_def new_Node_def ContextAware_issues_def Let_def)
qed

theorem missing_parse_merges_nothing_witness:
  "rootNode (new_ContextAware
       (\<lambda>(d::nat) s. s\<lparr>rootNode := Node ''/'' [d] [] []\<rparr>) (\<lambda>n. [])
       (\<lambda>u. if u = ''a.dts'' then Some 0 else None) [''a.dts'', ''b.dts''])
     = Node ''/'' [] [] []
   \<and> ContextAware_issues (new_ContextAware
       (\<lambda>(d::nat) s. s\<lparr>rootNode := Node ''/'' [d] [] []\<rparr>) (\<lambda>n. [])
       (\<lambda>u. if u = ''a.dts'' then Some 0 else None) [''a.dts'', ''b.dts''])
     = []"
  using missing_parse_merges_nothing [of "''b.dts''" "[''a.dts'', ''b.dts'']"
      "\<lambda>u. if u = ''a.dts'' then Some 0 else None"
      "\<lambda>(d::nat) s. s\<lparr>rootNode := Node ''/'' [d] [] []\<rparr>"
      "\<lparr>rootNode = Node ''/'' [] [] [], ca_issues = []\<rparr>" "\<lambda>n. []"]
  by (simp add: reportLabelIssues_def lablesUsed_def)

lemma interruptsLoop_tupleWalk:
  assumes nonneg: "\<And>n c. cells_value (getInterruptInfo env n) = Some c \<Longrightarrow> 0 \<le> c"
  shows "k \<le> length vs \<Longrightarrow>
         interruptsLoop env property rt vs (int k) issues0 =
           Some (issues0 @ tupleWalk env property rt (drop k vs))"
proof (induction "length vs - k" arbitrary: k rule: less_induct)
  case less
  show ?case
  proof (cases "k < length vs")
    case False
    with less.prems have "k = length vs" by simp
    then show ?thesis by (subst interruptsLoop.simps) simp
  next
    case True
    then have d: "drop k vs = vs ! k # drop (Suc k) vs"
      by (simp add: Cons_nth_drop_Suc)
    have va: "valueAt vs (int k) = Some (vs ! k)"
      using True by (simp add: valueAt_def)
    have lt: "int k < int (length vs)"
      using True by simp
    show ?thesis
    proof (cases "resolvePhandleNode env (Some (vs ! k)) rt")
      case None
      then show ?thesis
        using lt by (subst interruptsLoop.simps) (simp add: d va)
    next
      case (Some target)
      note target = this
      show ?thesis
      proof (cases "cellsProperty (getInterruptInfo env target)")
        case None
        then show ?thesis
          using lt target by (subst interruptsLoop.simps) (simp add: d va)
      next
        case (Some cp)
        note cp = this
        show ?thesis
        proof (cases "cells_value (getInterruptInfo env target)")
          case None
          then show ?thesis
            using lt target cp by (subst interruptsLoop.simps) (simp add: d va)
        next
          case (Some c)
          note c = this
          have c0: "0 \<le> c"
            using nonneg c by blast
          have len: "int (length (drop (Suc k) vs)) = int (length vs) - int k - 1"
            using True by simp
          show ?thesis
          proof (cases "int (length vs) - int k - 1 < c")
            case True
            then show ?thesis
              using lt target cp c len
              by (subst interruptsLoop.simps) (simp add: d va)
          next
            case False
            have k': "k + nat c + 1 \<le> length vs"
              using False c0 True by linarith
            have "length vs - (k + nat c + 1) < length vs - k"
              using True k' by linarith
            then have A: "interruptsLoop env property rt vs (int (k + nat c + 1)) issues0 =
                Some (issues0 @ tupleWalk env property rt (drop (k + nat c + 1) vs))"
              using less.hyps k' by blast
            have B: "int (k + nat c + 1) = int k + c + 1"
              using c0 by simp
            have C: "drop (k + nat c + 1) vs = drop (nat c) (drop (Suc k) vs)"
              by (simp add: add.commute)
            have IH:
              "interruptsLoop env property rt vs (int k + c + 1) issues0 =
                Some (issues0 @ tupleWalk env property rt (drop (nat c) (drop (Suc k) vs)))"
              unfolding B [symmetric] C [symmetric] by (rule A)
            show ?thesis
              using lt target cp c len False
              by (subst interruptsLoop.simps) (simp add: d va IH)
          qed
        qed
      qed
    qed
  qed
qed

text \<open>
  C9. When no \<^verbatim>\<open>#interrupt-cells\<close> value in the tree is negative and the property has
  flattened values, the check returns the warnings about ignored properties followed by
  the result of walking the values as tuples of a phandle and its cells: a phandle that
  resolves to no node ends the walk with INTERRUPTS_PARENT_NODE_NOT_FOUND on the
  phandle, a node without the \<^verbatim>\<open>#interrupt-cells\<close> property ends it with
  PROPERTY_REQUIRES_OTHER_PROPERTY_IN_NODE on the property, and fewer cells behind the
  phandle than the node asks for end it with INTERRUPTS_VALUE_CELL_MISS_MATCH on the
  phandle.
\<close>

theorem interrupts_extended_walks_tuples:
  assumes "\<And>n c. cells_value (getInterruptInfo env n) = Some c \<Longrightarrow> 0 \<le> c"
    and "flatNumberValues env (dp_values (ast property)) = Some vs" and "vs \<noteq> []"
  shows "interruptsExtendedCheck env property =
           Some (ignoredIssues env property @
                 tupleWalk env property (node_root env (property_parent env property)) vs)"
  using interruptsLoop_tupleWalk [OF assms(1), where k = 0 and vs = vs
      and property = property and rt = "node_root env (property_parent env property)"
      and ?issues0.0 = "ignoredIssues env property"] assms(2,3)
  by (simp add: interruptsExtendedCheck_def Let_def)

theorem interrupts_extended_walks_tuples_witness:
  "interruptsExtendedCheck
     \<lparr>property_parent = \<lambda>p. Node ''dev'' [] [] [], node_root = \<lambda>n. Node ''/'' [] [] [],
      flatNumberValues = \<lambda>v. Some [10, 11, 30],
      resolvePhandleNode = \<lambda>a r. if a = Some 10 then Some (Node ''pic'' [] [] []) else None,
      getInterruptInfo = \<lambda>n. \<lparr>cellsProperty =
          Some (Property (DtcProperty 50 (Some ''#interrupt-cells'') None) None),
          info_node = n, cells_value = Some 1\<rparr>,
      nodeNameOrLabelRef = \<lambda>n. [], node_path = \<lambda>n. []\<rparr>
     (Property (DtcProperty 40 (Some ''interrupts-extended'') None) None)
   = Some [genIssue [INTERRUPTS_PARENT_NODE_NOT_FOUND] (Some 30) Error [] None []]"
  using interrupts_extended_walks_tuples [where vs = "[10, 11, 30]"
     and property = "Property (DtcProperty 40 (Some ''interrupts-extended'') None) None"
     and env = "\<lparr>property_parent = \<lambda>p. Node ''dev'' [] [] [], node_root = \<lambda>n. Node ''/'' [] [] [],
      flatNumberValues = \<lambda>v. Some [10, 11, 30],
      resolvePhandleNode = \<lambda>a r. if a = Some 10 then Some (Node ''pic'' [] [] []) else None,
      getInterruptInfo = \<lambda>n. \<lparr>cellsProperty =
          Some (Property (DtcProperty 50 (Some ''#interrupt-cells'') None) None),
          info_node = n, cells_value = Some 1\<rparr>,
      nodeNameOrLabelRef = \<lambda>n. [], node_path = \<lambda>n. []\<rparr>"]
  by (simp add: ignoredIssues_def getProperty_def)

end
